theory Spec2Isabelle
  imports Complex_Main
begin

section \<open>The house generator: data model\<close>

text \<open>
  The development follows \<^verbatim>\<open>services/houseGenerator.ts\<close> (class \<^verbatim>\<open>HouseGenerator\<close>) and
  the interfaces of \<^verbatim>\<open>types/house.ts\<close>.

  Conventions of the embedding.
  \<^item> A JavaScript \<^verbatim>\<open>number\<close> that holds a measure is a \<^typ>\<open>real\<close>: arithmetic is exact,
    the rounding of IEEE doubles and the overflow to \<^verbatim>\<open>Infinity\<close> are not represented.
    \<^verbatim>\<open>NaN\<close> only arises from \<^verbatim>\<open>parseFloat\<close> and is the value \<^term>\<open>None\<close> of its result.
  \<^item> The room counts of the form are natural numbers (the form and the validating
    route produce them with \<^verbatim>\<open>parseInt\<close> and a range check), and so are the loop
    indices, which stay far below the 53rd power of two, where a double stops counting.
  \<^item> A string is a list of 8-bit characters, read as the code units U+0000 to U+00FF
    (Latin-1); text with a character beyond U+00FF is outside the model.
  \<^item> Field names follow the interfaces; \<^verbatim>\<open>id\<close>, \<^verbatim>\<open>type\<close>, \<^verbatim>\<open>length\<close> and the coordinates
    \<^verbatim>\<open>x\<close>, \<^verbatim>\<open>y\<close>, \<^verbatim>\<open>z\<close> are renamed, since records of one theory share a name space.
\<close>

datatype HouseType = Single | Double

datatype LocationType = City | Village

datatype Style = Modern | Traditional

datatype RoomType = Bedroom | Bathroom | Kitchen | Living | Dining | Hallway

datatype FurnitureType = Bed | Sofa | Table | Chair | Cabinet | Appliance

record HouseFormData =
  plotSize :: string
  houseType :: HouseType
  bedrooms :: nat
  bathrooms :: nat
  kitchens :: nat
  locationType :: LocationType
  extraNotes :: string

text \<open>\<^verbatim>\<open>{ x, y, z }\<close>, the position of a room or of a piece of furniture.\<close>

record Position =
  pos_x :: real
  pos_y :: real
  pos_z :: real

text \<open>
  \<^verbatim>\<open>{ width, length }\<close> is the parsed plot size; \<^verbatim>\<open>{ width, length, height }\<close> are the
  dimensions of a house, a room or a piece of furniture.
\<close>

record PlotSize =
  width :: real
  length' :: real

record Dimensions = PlotSize +
  height :: real

record Furniture =
  fid :: string
  fname :: string
  ftype :: FurnitureType
  fposition :: Position
  rotation :: real
  fdimensions :: Dimensions

record Room =
  rid :: string
  name :: string
  rtype :: RoomType
  position :: Position
  dimensions :: Dimensions
  furniture :: "Furniture list"

record HouseLayout = Dimensions +
  floors :: nat
  rooms :: "Room list"
  style :: Style

record TourWaypoint =
  wposition :: "real \<times> real \<times> real"
  lookAt :: "real \<times> real \<times> real"
  duration :: real
  roomName :: string

datatype error = Error string

definition ROOM_HEIGHT :: real where
  "ROOM_HEIGHT = 3"


section \<open>Strings and numbers of the host language\<close>

text \<open>
  \<^verbatim>\<open>String.prototype.toLowerCase\<close> on one code unit: the capital letters \<^verbatim>\<open>A\<close> to \<^verbatim>\<open>Z\<close>
  (65 to 90) and the capital letters of Latin-1 (192 to 222, without the multiplication
  sign 215) move up by 32; every other character is kept.
\<close>

definition lower_char :: "char \<Rightarrow> char" where
  "lower_char c =
     (let n = (of_char c :: nat) in
      if (65 \<le> n \<and> n \<le> 90) \<or> (192 \<le> n \<and> n \<le> 222 \<and> n \<noteq> 215) then char_of (n + 32)
      else c)"

definition toLowerCase :: "string \<Rightarrow> string" where
  "toLowerCase s = map lower_char s"

text \<open>
  The class \<^verbatim>\<open>\s\<close> among the code units up to U+00FF: tab, line feed, vertical tab, form
  feed, carriage return, space and the no-break space U+00A0 (160).
\<close>

definition is_space :: "char \<Rightarrow> bool" where
  "is_space c = ((of_char c :: nat) \<in> {9, 10, 11, 12, 13, 32, 160})"

text \<open>\<^verbatim>\<open>s.replace(/\s/g, '')\<close>.\<close>

definition strip_spaces :: "string \<Rightarrow> string" where
  "strip_spaces s = filter (\<lambda>c. \<not> is_space c) s"

text \<open>\<^verbatim>\<open>s.split(sep)\<close> for a one-character separator: never the empty list.\<close>

fun split :: "char \<Rightarrow> string \<Rightarrow> string list" where
  "split sep [] = [[]]"
| "split sep (c # cs) =
     (if c = sep then [] # split sep cs
      else (c # hd (split sep cs)) # tl (split sep cs))"

definition is_digit :: "char \<Rightarrow> bool" where
  "is_digit c = (c \<in> set ''0123456789'')"

definition digit_val :: "char \<Rightarrow> nat" where
  "digit_val c = of_char c - 48"

text \<open>The value of a string of decimal digits, most significant digit first.\<close>

definition digits_value :: "string \<Rightarrow> nat" where
  "digits_value ds = foldl (\<lambda>acc c. 10 * acc + digit_val c) 0 ds"

text \<open>An optional sign in front of a numeral: whether it is a minus, and the rest.\<close>

fun strip_sign :: "string \<Rightarrow> bool \<times> string" where
  "strip_sign [] = (False, [])"
| "strip_sign (c # cs) =
     (if c = CHR ''+'' then (False, cs)
      else if c = CHR ''-'' then (True, cs)
      else (False, c # cs))"

text \<open>
  The exponent part \<^verbatim>\<open>e\<close> or \<^verbatim>\<open>E\<close>, an optional sign and at least one digit. Anything else
  is not part of the numeral and counts as exponent 0.
\<close>

definition exponent :: "string \<Rightarrow> int" where
  "exponent s =
     (case s of
        [] \<Rightarrow> 0
      | c # cs \<Rightarrow>
          if c = CHR ''e'' \<or> c = CHR ''E'' then
            (let (neg, t) = strip_sign cs; ds = takeWhile is_digit t
             in if ds = [] then 0
                else if neg then - int (digits_value ds) else int (digits_value ds))
          else 0)"

text \<open>
  \<^verbatim>\<open>parseFloat\<close>: the value of the longest prefix that is a decimal literal (sign, integer
  digits, fraction, exponent), and \<^verbatim>\<open>NaN\<close> (here \<^term>\<open>None\<close>) when no prefix is one. The
  literal \<^verbatim>\<open>Infinity\<close> is left out: the only caller lower-cases its argument, which cannot
  start with a capital letter then. Leading white space needs no skipping for the same
  reason (the caller has removed it).
\<close>

definition parseFloat :: "string \<Rightarrow> real option" where
  "parseFloat s =
     (let (neg, s1) = strip_sign s;
          ip = takeWhile is_digit s1;
          r1 = dropWhile is_digit s1;
          (fp, r2) = (case r1 of
                        [] \<Rightarrow> ([], [])
                      | c # t \<Rightarrow>
                          if c = CHR ''.'' \<and> (ip \<noteq> [] \<or> takeWhile is_digit t \<noteq> [])
                          then (takeWhile is_digit t, dropWhile is_digit t)
                          else ([], r1))
      in if ip = [] \<and> fp = [] then None
         else
           (let m = real (digits_value ip) + real (digits_value fp) / 10 ^ length fp;
                v = m * 10 powi exponent r2
            in Some (if neg then - v else v)))"

text \<open>\<^verbatim>\<open>v || d\<close> for a number \<^verbatim>\<open>v\<close>: \<^verbatim>\<open>NaN\<close>, \<^verbatim>\<open>undefined\<close> and zero are falsy.\<close>

definition or_default :: "real option \<Rightarrow> real \<Rightarrow> real" where
  "or_default v d = (case v of None \<Rightarrow> d | Some r \<Rightarrow> if r = 0 then d else r)"

text \<open>Element \<^verbatim>\<open>i\<close> of the array \<^verbatim>\<open>size.split('x').map(s => parseFloat(s))\<close>;
  \<^verbatim>\<open>undefined\<close> beyond its end, which \<^verbatim>\<open>||\<close> treats as \<^verbatim>\<open>NaN\<close>.\<close>

definition element :: "real option list \<Rightarrow> nat \<Rightarrow> real option" where
  "element xs i = (if i < length xs then xs ! i else None)"


section \<open>Dimension and room planner\<close>

definition parsePlotSize :: "string \<Rightarrow> PlotSize" where
  "parsePlotSize plot =
     (let size = strip_spaces (toLowerCase plot) in
      if CHR ''x'' \<in> set size then
        (let parts = map parseFloat (split (CHR ''x'') size)
         in \<lparr>width = or_default (element parts 0) 20,
             length' = or_default (element parts 1) 30\<rparr>)
      else
        (case parseFloat size of
           Some numericSize \<Rightarrow> \<lparr>width = numericSize, length' = numericSize\<rparr>
         | None \<Rightarrow> \<lparr>width = 20, length' = 30\<rparr>))"

definition calculateHouseDimensions :: "PlotSize \<Rightarrow> HouseFormData \<Rightarrow> Dimensions" where
  "calculateHouseDimensions plot formData =
     (let houseWidth = min (width plot * 0.8) 25;
          houseLength = min (length' plot * 0.8) 35;
          floorHeight = ROOM_HEIGHT;
          totalHeight = (if houseType formData = Single then floorHeight else floorHeight * 2)
      in \<lparr>width = houseWidth, length' = houseLength, height = totalHeight\<rparr>)"

text \<open>
  \<^verbatim>\<open>Math.ceil(Math.sqrt(n))\<close> for a natural number \<^verbatim>\<open>n\<close>: the least \<open>k\<close> with
  \<open>n \<le> k * k\<close>, found by counting up from \<open>k\<close>. Lemma \<open>ceil_sqrt_ceiling\<close> below relates it to
  the ceiling of the real square root.
\<close>

function ceil_sqrt_from :: "nat \<Rightarrow> nat \<Rightarrow> nat" where
  "ceil_sqrt_from n k = (if n \<le> k * k then k else ceil_sqrt_from n (Suc k))"
  by pat_completeness auto
termination
  by (relation "measure (\<lambda>(n, k). n - k * k)") auto

declare ceil_sqrt_from.simps [simp del]

definition ceil_sqrt :: "nat \<Rightarrow> nat" where
  "ceil_sqrt n = ceil_sqrt_from n 0"

text \<open>The decimal numeral a template literal prints for a natural number.\<close>

definition digit_char :: "nat \<Rightarrow> char" where
  "digit_char d = char_of (48 + d)"

fun decimal :: "nat \<Rightarrow> string" where
  "decimal n = (if n < 10 then [digit_char n] else decimal (n div 10) @ [digit_char (n mod 10)])"

declare decimal.simps [simp del]

text \<open>
  The body of \<^verbatim>\<open>generateRooms\<close> pushes to \<^verbatim>\<open>rooms\<close> and moves the cursor
  \<^verbatim>\<open>(currentX, currentZ)\<close>; the three are threaded through as a triple (the array under
  the name \<open>roomList\<close>, \<open>rooms\<close> being a field of the layout). Each loop
  \<^verbatim>\<open>for (let i = 0; i < n; i++)\<close> is a \<^term>\<open>fold\<close> of its body over \<^term>\<open>[0..<n]\<close>.
\<close>

type_synonym placement = "Room list \<times> real \<times> real"

definition livingRoom :: "real \<Rightarrow> real \<Rightarrow> real \<Rightarrow> real \<Rightarrow> Room" where
  "livingRoom roomWidth roomLength currentX currentZ =
     \<lparr>rid = ''living-1'', name = ''Living Room'', rtype = Living,
      position = \<lparr>pos_x = currentX, pos_y = 0, pos_z = currentZ\<rparr>,
      dimensions = \<lparr>width = roomWidth * 1.5, length' = roomLength * 1.5, height = ROOM_HEIGHT\<rparr>,
      furniture = []\<rparr>"

definition kitchenRoom :: "real \<Rightarrow> real \<Rightarrow> nat \<Rightarrow> real \<Rightarrow> real \<Rightarrow> Room" where
  "kitchenRoom roomWidth roomLength i currentX currentZ =
     \<lparr>rid = ''kitchen-'' @ decimal (i + 1), name = ''Kitchen '' @ decimal (i + 1),
      rtype = Kitchen,
      position = \<lparr>pos_x = currentX, pos_y = 0, pos_z = currentZ\<rparr>,
      dimensions = \<lparr>width = roomWidth, length' = roomLength, height = ROOM_HEIGHT\<rparr>,
      furniture = []\<rparr>"

definition diningRoom :: "real \<Rightarrow> real \<Rightarrow> real \<Rightarrow> real \<Rightarrow> Room" where
  "diningRoom roomWidth roomLength currentX currentZ =
     \<lparr>rid = ''dining-1'', name = ''Dining Room'', rtype = Dining,
      position = \<lparr>pos_x = currentX, pos_y = 0, pos_z = currentZ\<rparr>,
      dimensions = \<lparr>width = roomWidth, length' = roomLength, height = ROOM_HEIGHT\<rparr>,
      furniture = []\<rparr>"

definition bedroomRoom :: "real \<Rightarrow> real \<Rightarrow> nat \<Rightarrow> real \<Rightarrow> real \<Rightarrow> Room" where
  "bedroomRoom roomWidth roomLength i currentX currentZ =
     \<lparr>rid = ''bedroom-'' @ decimal (i + 1), name = ''Bedroom '' @ decimal (i + 1),
      rtype = Bedroom,
      position = \<lparr>pos_x = currentX, pos_y = 0, pos_z = currentZ\<rparr>,
      dimensions = \<lparr>width = roomWidth, length' = roomLength, height = ROOM_HEIGHT\<rparr>,
      furniture = []\<rparr>"

definition bathroomRoom :: "real \<Rightarrow> real \<Rightarrow> nat \<Rightarrow> real \<Rightarrow> real \<Rightarrow> Room" where
  "bathroomRoom roomWidth roomLength i currentX currentZ =
     \<lparr>rid = ''bathroom-'' @ decimal (i + 1), name = ''Bathroom '' @ decimal (i + 1),
      rtype = Bathroom,
      position = \<lparr>pos_x = currentX, pos_y = 0, pos_z = currentZ\<rparr>,
      dimensions = \<lparr>width = roomWidth * 0.8, length' = roomLength * 0.8, height = ROOM_HEIGHT\<rparr>,
      furniture = []\<rparr>"

definition hallwayRoom :: "Dimensions \<Rightarrow> Room" where
  "hallwayRoom dims =
     \<lparr>rid = ''hallway-1'', name = ''Hallway'', rtype = Hallway,
      position = \<lparr>pos_x = 0, pos_y = 0, pos_z = - 2\<rparr>,
      dimensions = \<lparr>width = width dims, length' = 2, height = ROOM_HEIGHT\<rparr>,
      furniture = []\<rparr>"

text \<open>One round of the kitchen loop.\<close>

definition addKitchen :: "real \<Rightarrow> real \<Rightarrow> nat \<Rightarrow> placement \<Rightarrow> placement" where
  "addKitchen roomWidth roomLength i =
     (\<lambda>(roomList, currentX, currentZ).
        (roomList @ [kitchenRoom roomWidth roomLength i currentX currentZ],
         currentX + roomWidth, currentZ))"

text \<open>\<^verbatim>\<open>if (currentX + roomWidth <= dimensions.width) { rooms.push(dining); ... }\<close>\<close>

definition addDining :: "Dimensions \<Rightarrow> real \<Rightarrow> real \<Rightarrow> placement \<Rightarrow> placement" where
  "addDining dims roomWidth roomLength =
     (\<lambda>(roomList, currentX, currentZ).
        if currentX + roomWidth \<le> width dims
        then (roomList @ [diningRoom roomWidth roomLength currentX currentZ],
              currentX + roomWidth, currentZ)
        else (roomList, currentX, currentZ))"

text \<open>The wrap to a new row that opens each round of the bedroom and bathroom loops.\<close>

definition wrapRow :: "Dimensions \<Rightarrow> real \<Rightarrow> real \<Rightarrow> real \<times> real \<Rightarrow> real \<times> real" where
  "wrapRow dims roomWidth roomLength =
     (\<lambda>(currentX, currentZ).
        if currentX + roomWidth > width dims then (0, currentZ + roomLength)
        else (currentX, currentZ))"

definition addBedroom :: "Dimensions \<Rightarrow> real \<Rightarrow> real \<Rightarrow> nat \<Rightarrow> placement \<Rightarrow> placement" where
  "addBedroom dims roomWidth roomLength i =
     (\<lambda>(roomList, cursor).
        let (currentX, currentZ) = wrapRow dims roomWidth roomLength cursor
        in (roomList @ [bedroomRoom roomWidth roomLength i currentX currentZ],
            currentX + roomWidth, currentZ))"

definition addBathroom :: "Dimensions \<Rightarrow> real \<Rightarrow> real \<Rightarrow> nat \<Rightarrow> placement \<Rightarrow> placement" where
  "addBathroom dims roomWidth roomLength i =
     (\<lambda>(roomList, cursor).
        let (currentX, currentZ) = wrapRow dims roomWidth roomLength cursor
        in (roomList @ [bathroomRoom roomWidth roomLength i currentX currentZ],
            currentX + roomWidth, currentZ))"

text \<open>The base unit of a room along an axis of the given extent.\<close>

definition roomUnit :: "HouseFormData \<Rightarrow> real \<Rightarrow> real" where
  "roomUnit formData extent = extent / real (max 2 (ceil_sqrt (bedrooms formData + 2)))"

text \<open>The first part of \<^verbatim>\<open>generateRooms\<close>: the state after the living room and the
  kitchens, before the test for the dining room.\<close>

definition firstRow :: "HouseFormData \<Rightarrow> Dimensions \<Rightarrow> placement" where
  "firstRow formData dims =
     (let roomWidth = roomUnit formData (width dims);
          roomLength = roomUnit formData (length' dims)
      in fold (addKitchen roomWidth roomLength) [0..<kitchens formData]
           ([livingRoom roomWidth roomLength 0 0], 0 + roomWidth * 1.5, 0))"

definition generateRooms :: "HouseFormData \<Rightarrow> Dimensions \<Rightarrow> Room list" where
  "generateRooms formData dims =
     (let roomWidth = roomUnit formData (width dims);
          roomLength = roomUnit formData (length' dims);
          (rooms1, x1, z1) = addDining dims roomWidth roomLength (firstRow formData dims);
          row2 = (rooms1, 0, z1 + roomLength * 1.5);
          row3 = fold (addBedroom dims roomWidth roomLength) [0..<bedrooms formData] row2;
          (rooms4, cursor4) =
             fold (addBathroom dims roomWidth roomLength) [0..<bathrooms formData] row3
      in rooms4 @ [hallwayRoom dims])"


section \<open>Furnishing and tour planner\<close>

text \<open>\<^verbatim>\<open>Math.PI\<close> is a double, hence a rational number: the one nearest to \<open>\<pi>\<close>.\<close>

definition Math_PI :: real where
  "Math_PI = 884279719003555 / 281474976710656"

text \<open>
  The \<^verbatim>\<open>switch (room.type)\<close> of \<^verbatim>\<open>addFurniture\<close>: the array \<^verbatim>\<open>furniture\<close>, empty at first,
  after the pushes of the matching case. The switch has no case for a hallway and no
  default.
\<close>

definition roomFurniture :: "Room \<Rightarrow> Furniture list" where
  "roomFurniture room =
     (case rtype room of
        Living \<Rightarrow>
       [\<lparr>fid = ''sofa-1'', fname = ''Sofa'', ftype = Sofa,
         fposition = \<lparr>pos_x = width (dimensions room) * 0.2, pos_y = 0,
                      pos_z = length' (dimensions room) * 0.3\<rparr>,
         rotation = 0,
         fdimensions = \<lparr>width = 2.5, length' = 1, height = 0.8\<rparr>\<rparr>,
        \<lparr>fid = ''coffee-table-1'', fname = ''Coffee Table'', ftype = Table,
         fposition = \<lparr>pos_x = width (dimensions room) * 0.5, pos_y = 0,
                      pos_z = length' (dimensions room) * 0.5\<rparr>,
         rotation = 0,
         fdimensions = \<lparr>width = 1.2, length' = 0.8, height = 0.5\<rparr>\<rparr>,
        \<lparr>fid = ''tv-cabinet-1'', fname = ''TV Cabinet'', ftype = Cabinet,
         fposition = \<lparr>pos_x = width (dimensions room) * 0.8, pos_y = 0,
                      pos_z = length' (dimensions room) * 0.2\<rparr>,
         rotation = 0,
         fdimensions = \<lparr>width = 2, length' = 0.5, height = 0.6\<rparr>\<rparr>,
        \<lparr>fid = ''armchair-1'', fname = ''Armchair'', ftype = Chair,
         fposition = \<lparr>pos_x = width (dimensions room) * 0.7, pos_y = 0,
                      pos_z = length' (dimensions room) * 0.7\<rparr>,
         rotation = Math_PI / 4,
         fdimensions = \<lparr>width = 0.8, length' = 0.8, height = 0.9\<rparr>\<rparr>,
        \<lparr>fid = ''side-table-1'', fname = ''Side Table'', ftype = Table,
         fposition = \<lparr>pos_x = width (dimensions room) * 0.85, pos_y = 0,
                      pos_z = length' (dimensions room) * 0.75\<rparr>,
         rotation = 0,
         fdimensions = \<lparr>width = 0.5, length' = 0.5, height = 0.6\<rparr>\<rparr>]
      | Bedroom \<Rightarrow>
       [\<lparr>fid = ''bed-'' @ rid room, fname = ''Bed'', ftype = Bed,
         fposition = \<lparr>pos_x = width (dimensions room) * 0.3, pos_y = 0,
                      pos_z = length' (dimensions room) * 0.4\<rparr>,
         rotation = 0,
         fdimensions = \<lparr>width = 1.6, length' = 2, height = 0.6\<rparr>\<rparr>,
        \<lparr>fid = ''wardrobe-'' @ rid room, fname = ''Wardrobe'', ftype = Cabinet,
         fposition = \<lparr>pos_x = width (dimensions room) * 0.1, pos_y = 0,
                      pos_z = length' (dimensions room) * 0.1\<rparr>,
         rotation = 0,
         fdimensions = \<lparr>width = 1.5, length' = 0.6, height = 2.2\<rparr>\<rparr>,
        \<lparr>fid = ''nightstand-'' @ rid room, fname = ''Nightstand'', ftype = Table,
         fposition = \<lparr>pos_x = width (dimensions room) * 0.6, pos_y = 0,
                      pos_z = length' (dimensions room) * 0.3\<rparr>,
         rotation = 0,
         fdimensions = \<lparr>width = 0.5, length' = 0.4, height = 0.7\<rparr>\<rparr>,
        \<lparr>fid = ''dresser-'' @ rid room, fname = ''Dresser'', ftype = Cabinet,
         fposition = \<lparr>pos_x = width (dimensions room) * 0.8, pos_y = 0,
                      pos_z = length' (dimensions room) * 0.7\<rparr>,
         rotation = Math_PI / 2,
         fdimensions = \<lparr>width = 1.2, length' = 0.5, height = 1.0\<rparr>\<rparr>]
      | Kitchen \<Rightarrow>
       [\<lparr>fid = ''counter-'' @ rid room, fname = ''Kitchen Counter'', ftype = Cabinet,
         fposition = \<lparr>pos_x = width (dimensions room) * 0.1, pos_y = 0,
                      pos_z = length' (dimensions room) * 0.2\<rparr>,
         rotation = 0,
         fdimensions = \<lparr>width = width (dimensions room) * 0.8, length' = 0.6, height = 0.9\<rparr>\<rparr>,
        \<lparr>fid = ''stove-'' @ rid room, fname = ''Stove'', ftype = Appliance,
         fposition = \<lparr>pos_x = width (dimensions room) * 0.3, pos_y = 0,
                      pos_z = length' (dimensions room) * 0.25\<rparr>,
         rotation = 0,
         fdimensions = \<lparr>width = 0.6, length' = 0.6, height = 0.9\<rparr>\<rparr>,
        \<lparr>fid = ''fridge-'' @ rid room, fname = ''Refrigerator'', ftype = Appliance,
         fposition = \<lparr>pos_x = width (dimensions room) * 0.8, pos_y = 0,
                      pos_z = length' (dimensions room) * 0.1\<rparr>,
         rotation = 0,
         fdimensions = \<lparr>width = 0.7, length' = 0.7, height = 1.8\<rparr>\<rparr>,
        \<lparr>fid = ''sink-'' @ rid room, fname = ''Kitchen Sink'', ftype = Appliance,
         fposition = \<lparr>pos_x = width (dimensions room) * 0.5, pos_y = 0,
                      pos_z = length' (dimensions room) * 0.25\<rparr>,
         rotation = 0,
         fdimensions = \<lparr>width = 0.8, length' = 0.5, height = 0.9\<rparr>\<rparr>,
        \<lparr>fid = ''island-'' @ rid room, fname = ''Kitchen Island'', ftype = Table,
         fposition = \<lparr>pos_x = width (dimensions room) * 0.5, pos_y = 0,
                      pos_z = length' (dimensions room) * 0.6\<rparr>,
         rotation = 0,
         fdimensions = \<lparr>width = 1.5, length' = 1.0, height = 0.9\<rparr>\<rparr>]
      | Bathroom \<Rightarrow>
       [\<lparr>fid = ''toilet-'' @ rid room, fname = ''Toilet'', ftype = Appliance,
         fposition = \<lparr>pos_x = width (dimensions room) * 0.2, pos_y = 0,
                      pos_z = length' (dimensions room) * 0.2\<rparr>,
         rotation = 0,
         fdimensions = \<lparr>width = 0.4, length' = 0.7, height = 0.8\<rparr>\<rparr>,
        \<lparr>fid = ''sink-'' @ rid room, fname = ''Bathroom Sink'', ftype = Appliance,
         fposition = \<lparr>pos_x = width (dimensions room) * 0.7, pos_y = 0,
                      pos_z = length' (dimensions room) * 0.2\<rparr>,
         rotation = 0,
         fdimensions = \<lparr>width = 0.6, length' = 0.4, height = 0.8\<rparr>\<rparr>,
        \<lparr>fid = ''shower-'' @ rid room, fname = ''Shower'', ftype = Appliance,
         fposition = \<lparr>pos_x = width (dimensions room) * 0.2, pos_y = 0,
                      pos_z = length' (dimensions room) * 0.7\<rparr>,
         rotation = 0,
         fdimensions = \<lparr>width = 0.9, length' = 0.9, height = 2.0\<rparr>\<rparr>,
        \<lparr>fid = ''cabinet-'' @ rid room, fname = ''Bathroom Cabinet'', ftype = Cabinet,
         fposition = \<lparr>pos_x = width (dimensions room) * 0.7, pos_y = 0,
                      pos_z = length' (dimensions room) * 0.7\<rparr>,
         rotation = 0,
         fdimensions = \<lparr>width = 0.6, length' = 0.3, height = 1.8\<rparr>\<rparr>]
      | Dining \<Rightarrow>
       [\<lparr>fid = ''dining-table-'' @ rid room, fname = ''Dining Table'', ftype = Table,
         fposition = \<lparr>pos_x = width (dimensions room) * 0.5, pos_y = 0,
                      pos_z = length' (dimensions room) * 0.5\<rparr>,
         rotation = 0,
         fdimensions = \<lparr>width = 1.8, length' = 1.2, height = 0.75\<rparr>\<rparr>,
        \<lparr>fid = ''dining-chairs-'' @ rid room, fname = ''Dining Chairs'', ftype = Chair,
         fposition = \<lparr>pos_x = width (dimensions room) * 0.5, pos_y = 0,
                      pos_z = length' (dimensions room) * 0.3\<rparr>,
         rotation = 0,
         fdimensions = \<lparr>width = 0.5, length' = 0.5, height = 0.9\<rparr>\<rparr>]
      | Hallway \<Rightarrow> [])"

text \<open>
  \<^verbatim>\<open>rooms.map(room => { ...; return { ...room, furniture }; })\<close>. The parameter
  \<^verbatim>\<open>locationType\<close> (here \<open>location\<close>) is declared and not read.
\<close>

definition addFurniture :: "Room list \<Rightarrow> LocationType \<Rightarrow> Room list" where
  "addFurniture roomList location =
     map (\<lambda>room. room\<lparr>furniture := roomFurniture room\<rparr>) roomList"

text \<open>
  The same function over an explicit store of room objects, to tell a written object from
  a new one. The store is the list of the objects allocated so far, a reference is an index
  into it, and an object literal allocates at the end. The callback reads its room,
  builds the literal \<^verbatim>\<open>{ ...room, furniture }\<close> and \<^verbatim>\<open>map\<close> collects the new references
  in a new array.
\<close>

type_synonym ref = nat

type_synonym store = "Room list"

definition addFurnitureStep :: "ref \<Rightarrow> ref list \<times> store \<Rightarrow> ref list \<times> store" where
  "addFurnitureStep r =
     (\<lambda>(result, objs).
        let room = objs ! r
        in (result @ [length objs], objs @ [room\<lparr>furniture := roomFurniture room\<rparr>]))"

definition addFurnitureStore :: "store \<Rightarrow> ref list \<Rightarrow> LocationType \<Rightarrow> ref list \<times> store" where
  "addFurnitureStore objs roomRefs location = fold addFurnitureStep roomRefs ([], objs)"

definition exteriorView :: "Dimensions \<Rightarrow> TourWaypoint" where
  "exteriorView dims =
     \<lparr>wposition = (width dims / 2, height dims + 5, - 10),
      lookAt = (width dims / 2, height dims / 2, length' dims / 2),
      duration = 3,
      roomName = ''Exterior View''\<rparr>"

definition roomView :: "Room \<Rightarrow> TourWaypoint" where
  "roomView room =
     \<lparr>wposition = (pos_x (position room) + width (dimensions room) / 2,
                   height (dimensions room) / 2,
                   pos_z (position room) + length' (dimensions room) / 2),
      lookAt = (pos_x (position room) + width (dimensions room) / 2,
                height (dimensions room) / 2,
                pos_z (position room) + length' (dimensions room) / 2),
      duration = 2,
      roomName = name room\<rparr>"

definition finalView :: "Dimensions \<Rightarrow> TourWaypoint" where
  "finalView dims =
     \<lparr>wposition = (width dims / 2, height dims + 3, - 8),
      lookAt = (width dims / 2, height dims / 2, length' dims / 2),
      duration = 2,
      roomName = ''Final View''\<rparr>"

text \<open>The callback of \<^verbatim>\<open>rooms.forEach\<close>, pushing to \<^verbatim>\<open>waypoints\<close>.\<close>

definition visitRoom :: "Room \<Rightarrow> TourWaypoint list \<Rightarrow> TourWaypoint list" where
  "visitRoom room waypoints =
     (if rtype room \<noteq> Hallway then waypoints @ [roomView room] else waypoints)"

definition generateTourWaypoints :: "Room list \<Rightarrow> Dimensions \<Rightarrow> TourWaypoint list" where
  "generateTourWaypoints roomList dims =
     fold visitRoom roomList [exteriorView dims] @ [finalView dims]"


section \<open>The pipeline\<close>

text \<open>
  The \<^verbatim>\<open>try\<close> block of \<^verbatim>\<open>generateHouse\<close>. None of the functions it calls raises, so it
  always yields a layout; the waypoints it computes are dropped, as in the source.
\<close>

definition generateHouseBody :: "HouseFormData \<Rightarrow> error + HouseLayout" where
  "generateHouseBody formData =
     (let plot = parsePlotSize (plotSize formData);
          houseDimensions = calculateHouseDimensions plot formData;
          roomList = generateRooms formData houseDimensions;
          furnishedRooms = addFurniture roomList (locationType formData);
          tourWaypoints = generateTourWaypoints furnishedRooms houseDimensions
      in Inr \<lparr>width = width houseDimensions,
              length' = length' houseDimensions,
              height = height houseDimensions,
              floors = (if houseType formData = Single then 1 else 2),
              rooms = furnishedRooms,
              style = (if locationType formData = City then Modern else Traditional)\<rparr>)"

text \<open>The \<^verbatim>\<open>catch\<close> clause replaces any error by one fixed error.\<close>

definition generateHouse :: "HouseFormData \<Rightarrow> error + HouseLayout" where
  "generateHouse formData =
     (case generateHouseBody formData of
        Inl e \<Rightarrow> Inl (Error ''Failed to generate house layout'')
      | Inr layout \<Rightarrow> Inr layout)"


section \<open>Notions used in the statements\<close>

text \<open>
  The plot size grammar in the words of the specification: after lower-casing and
  removing white space the text is \<^verbatim>\<open><number>x<number>\<close> or a single \<^verbatim>\<open><number>\<close>. A number
  is read as an unsigned decimal numeral: digits, optionally a point and more digits.
\<close>

definition spec_number :: "string \<Rightarrow> bool" where
  "spec_number s =
     (let ip = takeWhile is_digit s; r = dropWhile is_digit s
      in ip \<noteq> [] \<and>
         (case r of
            [] \<Rightarrow> True
          | c # fp \<Rightarrow> c = CHR ''.'' \<and> fp \<noteq> [] \<and> list_all is_digit fp))"

definition spec_parseable :: "string \<Rightarrow> bool" where
  "spec_parseable plot =
     (case split (CHR ''x'') (strip_spaces (toLowerCase plot)) of
        [n] \<Rightarrow> spec_number n
      | [w, l] \<Rightarrow> spec_number w \<and> spec_number l
      | _ \<Rightarrow> False)"

text \<open>
  The texts \<^verbatim>\<open>parsePlotSize\<close> hands to \<^verbatim>\<open>parseFloat\<close>: the whole normalised text when it has
  no \<^verbatim>\<open>x\<close>, else the parts before and after the first \<^verbatim>\<open>x\<close> (up to the second one).
\<close>

definition plotComponents :: "string \<Rightarrow> string list" where
  "plotComponents plot = take 2 (split (CHR ''x'') (strip_spaces (toLowerCase plot)))"

text \<open>A text begins with a decimal numeral: after an optional sign comes a digit, or a
  point and a digit.\<close>

definition starts_numeric :: "string \<Rightarrow> bool" where
  "starts_numeric s =
     (case snd (strip_sign s) of
        [] \<Rightarrow> False
      | c # t \<Rightarrow>
          is_digit c \<or> (c = CHR ''.'' \<and> (case t of [] \<Rightarrow> False | d # u \<Rightarrow> is_digit d)))"

text \<open>
  The dining room fits: in the first row the cursor has passed the living room (one and
  a half units wide) and the kitchens (one unit each), and one more unit does not
  exceed the house width.
\<close>

definition diningFits :: "HouseFormData \<Rightarrow> Dimensions \<Rightarrow> bool" where
  "diningFits formData dims =
     (roomUnit formData (width dims) * 1.5
        + real (kitchens formData) * roomUnit formData (width dims)
        + roomUnit formData (width dims) \<le> width dims)"

text \<open>Two form inputs to try the statements on: the scenario of the specification, and a
  house with many bedrooms and no kitchen, in which the dining room fits.\<close>

definition scenarioForm :: HouseFormData where
  "scenarioForm =
     \<lparr>plotSize = ''20x30'', houseType = Single, bedrooms = 2, bathrooms = 1, kitchens = 1,
      locationType = City, extraNotes = []\<rparr>"

definition sevenBedroomForm :: HouseFormData where
  "sevenBedroomForm =
     \<lparr>plotSize = ''20x30'', houseType = Double, bedrooms = 7, bathrooms = 2, kitchens = 0,
      locationType = Village, extraNotes = ''garden''\<rparr>"

definition scenarioDimensions :: Dimensions where
  "scenarioDimensions = \<lparr>width = 16, length' = 24, height = 3\<rparr>"


section \<open>Plot size and house dimensions\<close>

lemma takeWhile_digit_Nil:
  "takeWhile is_digit s = [] \<longleftrightarrow> (case s of [] \<Rightarrow> True | c # t \<Rightarrow> \<not> is_digit c)"
  by (cases s) auto

text \<open>\<^verbatim>\<open>parseFloat\<close> yields \<^verbatim>\<open>NaN\<close> exactly on the texts that do not begin with a numeral.\<close>

lemma parseFloat_None_iff: "parseFloat s = None \<longleftrightarrow> \<not> starts_numeric s"
proof -
  obtain neg s1 where sg: "strip_sign s = (neg, s1)"
    by (cases "strip_sign s")
  show ?thesis
  proof (cases s1)
    case Nil
    with sg show ?thesis
      by (simp add: parseFloat_def starts_numeric_def)
  next
    case (Cons c t)
    show ?thesis
    proof (cases "is_digit c")
      case True
      with sg Cons show ?thesis
        by (simp add: parseFloat_def starts_numeric_def Let_def split: prod.splits list.splits)
    next
      case False
      with sg Cons show ?thesis
        by (auto simp add: parseFloat_def starts_numeric_def Let_def takeWhile_digit_Nil
                 split: prod.splits list.splits)
    qed
  qed
qed

lemma split_not_Nil: "split sep s \<noteq> []"
  by (induction s) auto

lemma split_no_sep: "sep \<notin> set s \<Longrightarrow> split sep s = [s]"
  by (induction s) auto

lemma split_sep_length: "sep \<in> set s \<Longrightarrow> 2 \<le> length (split sep s)"
proof (induction s)
  case Nil
  then show ?case by simp
next
  case (Cons c s)
  have "1 \<le> length (split sep s)"
    using split_not_Nil [of sep s] by (cases "split sep s") auto
  with Cons show ?case
    by (cases "split sep s") auto
qed

lemma split_two:
  assumes "sep \<in> set s"
  obtains a b r where "split sep s = a # b # r"
  using split_sep_length [OF assms]
  by (cases "split sep s"; cases "tl (split sep s)") auto

lemma parsePlotSize_no_x:
  assumes "CHR ''x'' \<notin> set (strip_spaces (toLowerCase plot))"
    and "\<not> starts_numeric (strip_spaces (toLowerCase plot))"
  shows "parsePlotSize plot = \<lparr>width = 20, length' = 30\<rparr>"
  using assms by (simp add: parsePlotSize_def parseFloat_None_iff [symmetric])

lemma parsePlotSize_x_width:
  assumes "CHR ''x'' \<in> set (strip_spaces (toLowerCase plot))"
    and "\<not> starts_numeric (plotComponents plot ! 0)"
  shows "width (parsePlotSize plot) = 20"
proof -
  obtain a b r where sp: "split (CHR ''x'') (strip_spaces (toLowerCase plot)) = a # b # r"
    using split_two [OF assms(1)] .
  with assms(2) have "parseFloat a = None"
    by (simp add: plotComponents_def parseFloat_None_iff)
  with assms(1) sp show ?thesis
    by (simp add: parsePlotSize_def element_def or_default_def)
qed

lemma parsePlotSize_x_length:
  assumes "CHR ''x'' \<in> set (strip_spaces (toLowerCase plot))"
    and "\<not> starts_numeric (plotComponents plot ! 1)"
  shows "length' (parsePlotSize plot) = 30"
proof -
  obtain a b r where sp: "split (CHR ''x'') (strip_spaces (toLowerCase plot)) = a # b # r"
    using split_two [OF assms(1)] .
  with assms(2) have "parseFloat b = None"
    by (simp add: plotComponents_def parseFloat_None_iff)
  with assms(1) sp show ?thesis
    by (simp add: parsePlotSize_def element_def or_default_def)
qed

lemma parsePlotSize_default:
  assumes "\<forall>c \<in> set (plotComponents plot). \<not> starts_numeric c"
  shows "parsePlotSize plot = \<lparr>width = 20, length' = 30\<rparr>"
proof (cases "CHR ''x'' \<in> set (strip_spaces (toLowerCase plot))")
  case False
  then have "plotComponents plot = [strip_spaces (toLowerCase plot)]"
    by (simp add: plotComponents_def split_no_sep)
  with assms False show ?thesis
    by (simp add: parsePlotSize_no_x)
next
  case True
  obtain a b r where sp: "split (CHR ''x'') (strip_spaces (toLowerCase plot)) = a # b # r"
    using split_two [OF True] .
  then have "plotComponents plot = [a, b]"
    by (simp add: plotComponents_def)
  with assms have "parseFloat a = None" "parseFloat b = None"
    by (simp_all add: parseFloat_None_iff)
  with True sp show ?thesis
    by (simp add: parsePlotSize_def element_def or_default_def)
qed

text \<open>White space goes before anything is parsed, the no-break space included.\<close>

lemma parsePlotSize_no_break_space:
  "parsePlotSize (CHR 0xA0 # ''25'') = \<lparr>width = 25, length' = 25\<rparr> \<and>
   parsePlotSize (''20x'' @ [CHR 0xA0] @ ''40'') = \<lparr>width = 20, length' = 40\<rparr> \<and>
   parsePlotSize '' 20 X 30 '' = \<lparr>width = 20, length' = 30\<rparr>"
  by code_simp

text \<open>
  Claim C1, as stated: \<^verbatim>\<open>parsePlotSize\<close> returns the default \<open>{width: 20, length: 30}\<close> for
  every unparseable input, a malformed \<^verbatim>\<open>x\<close>-split included. The text \<^verbatim>\<open>25x\<close> is such a
  split (nothing follows the \<^verbatim>\<open>x\<close>, so it fits neither shape of the grammar whatever a
  number is), and the result is \<open>{width: 25, length: 30}\<close>: the width is kept and only the
  length takes its default.
\<close>

theorem parsePlotSize_malformed_split_counterexample:
  "\<not> spec_parseable ''25x'' \<and>
   parsePlotSize ''25x'' = \<lparr>width = 25, length' = 30\<rparr> \<and>
   parsePlotSize ''25x'' \<noteq> \<lparr>width = 20, length' = 30\<rparr>"
  by code_simp

text \<open>
  Claim C1, amended: \<^verbatim>\<open>parsePlotSize\<close> maps \<^verbatim>\<open>20x30\<close> to \<open>{width: 20, length: 30}\<close> and \<^verbatim>\<open>25\<close>
  to \<open>{width: 25, length: 25}\<close>. It returns the fixed default \<open>{width: 20, length: 30}\<close> for
  every input none of whose components begins with a decimal numeral, the components
  being the whole text or, when it has an \<^verbatim>\<open>x\<close>, the parts before and after the first
  \<^verbatim>\<open>x\<close>, after lower-casing and removing white space (so for the empty string, for
  \<^verbatim>\<open>garbage\<close> and for \<^verbatim>\<open>x\<close>). In an \<^verbatim>\<open>x\<close>-split each component falls back on its own: a
  first part that does not begin with a numeral gives width 20, a second part that
  does not gives length 30, whatever the other part is.
\<close>

theorem parsePlotSize_fallback:
  "parsePlotSize ''20x30'' = \<lparr>width = 20, length' = 30\<rparr> \<and>
   parsePlotSize ''25'' = \<lparr>width = 25, length' = 25\<rparr> \<and>
   (\<forall>plot. (\<forall>c \<in> set (plotComponents plot). \<not> starts_numeric c) \<longrightarrow>
      parsePlotSize plot = \<lparr>width = 20, length' = 30\<rparr>) \<and>
   (\<forall>plot. CHR ''x'' \<in> set (strip_spaces (toLowerCase plot)) \<longrightarrow>
      (\<not> starts_numeric (plotComponents plot ! 0) \<longrightarrow> width (parsePlotSize plot) = 20) \<and>
      (\<not> starts_numeric (plotComponents plot ! 1) \<longrightarrow> length' (parsePlotSize plot) = 30))"
proof (intro conjI allI impI)
  show "parsePlotSize ''20x30'' = \<lparr>width = 20, length' = 30\<rparr>"
    by code_simp
  show "parsePlotSize ''25'' = \<lparr>width = 25, length' = 25\<rparr>"
    by code_simp
next
  fix plot
  assume "\<forall>c \<in> set (plotComponents plot). \<not> starts_numeric c"
  then show "parsePlotSize plot = \<lparr>width = 20, length' = 30\<rparr>"
    by (rule parsePlotSize_default)
next
  fix plot
  assume "CHR ''x'' \<in> set (strip_spaces (toLowerCase plot))"
    and "\<not> starts_numeric (plotComponents plot ! 0)"
  then show "width (parsePlotSize plot) = 20"
    by (rule parsePlotSize_x_width)
next
  fix plot
  assume "CHR ''x'' \<in> set (strip_spaces (toLowerCase plot))"
    and "\<not> starts_numeric (plotComponents plot ! 1)"
  then show "length' (parsePlotSize plot) = 30"
    by (rule parsePlotSize_x_length)
qed

theorem parsePlotSize_fallback_witness:
  "plotComponents [] = [[]] \<and> \<not> starts_numeric [] \<and>
   parsePlotSize [] = \<lparr>width = 20, length' = 30\<rparr> \<and>
   plotComponents ''garbage'' = [''garbage''] \<and> \<not> starts_numeric ''garbage'' \<and>
   parsePlotSize ''garbage'' = \<lparr>width = 20, length' = 30\<rparr> \<and>
   plotComponents ''x'' = [[], []] \<and>
   parsePlotSize ''x'' = \<lparr>width = 20, length' = 30\<rparr> \<and>
   CHR ''x'' \<in> set (strip_spaces (toLowerCase ''25x'')) \<and>
   \<not> starts_numeric (plotComponents ''25x'' ! 1) \<and>
   length' (parsePlotSize ''25x'') = 30 \<and>
   CHR ''x'' \<in> set (strip_spaces (toLowerCase ''x 30'')) \<and>
   \<not> starts_numeric (plotComponents ''x 30'' ! 0) \<and>
   width (parsePlotSize ''x 30'') = 20"
proof -
  have c: "plotComponents [] = [[]]" "plotComponents ''garbage'' = [''garbage'']"
    "plotComponents ''x'' = [[], []]"
    by code_simp+
  have n: "\<not> starts_numeric []" "\<not> starts_numeric ''garbage''"
    by code_simp+
  have e: "\<forall>c \<in> set (plotComponents []). \<not> starts_numeric c"
    and g: "\<forall>c \<in> set (plotComponents ''garbage''). \<not> starts_numeric c"
    and x: "\<forall>c \<in> set (plotComponents ''x''). \<not> starts_numeric c"
    using n by (simp_all add: c)
  have l: "CHR ''x'' \<in> set (strip_spaces (toLowerCase ''25x''))"
    "\<not> starts_numeric (plotComponents ''25x'' ! 1)"
    by code_simp+
  have w: "CHR ''x'' \<in> set (strip_spaces (toLowerCase ''x 30''))"
    "\<not> starts_numeric (plotComponents ''x 30'' ! 0)"
    by code_simp+
  from parsePlotSize_fallback e g x l w c n show ?thesis
    by blast
qed

text \<open>
  Claim C2: for every plot size and house type the computed width is
  \<open>min (0.8 \<times> plot width) 25\<close> and the length \<open>min (0.8 \<times> plot length) 35\<close>, so the width
  never exceeds 25 and the length never exceeds 35; the height is the per-floor unit
  \<^verbatim>\<open>ROOM_HEIGHT\<close> for a single-story house and twice that unit for a double-story one.
\<close>

theorem calculateHouseDimensions_capped:
  "width (calculateHouseDimensions plot formData) = min (0.8 * width plot) 25 \<and>
   length' (calculateHouseDimensions plot formData) = min (0.8 * length' plot) 35 \<and>
   width (calculateHouseDimensions plot formData) \<le> 25 \<and>
   length' (calculateHouseDimensions plot formData) \<le> 35 \<and>
   height (calculateHouseDimensions plot formData) =
     (case houseType formData of Single \<Rightarrow> ROOM_HEIGHT | Double \<Rightarrow> 2 * ROOM_HEIGHT)"
  by (cases "houseType formData") (simp_all add: calculateHouseDimensions_def mult.commute)

section \<open>The room list\<close>

subsection \<open>The square root of the room unit\<close>

lemma ceil_sqrt_from_least:
  "\<forall>j<k. j * j < n \<Longrightarrow>
   n \<le> ceil_sqrt_from n k * ceil_sqrt_from n k \<and> (\<forall>j<ceil_sqrt_from n k. j * j < n)"
proof (induction n k rule: ceil_sqrt_from.induct)
  case (1 n k)
  show ?case
  proof (cases "n \<le> k * k")
    case True
    with "1.prems" show ?thesis
      by (simp add: ceil_sqrt_from.simps [of n k])
  next
    case False
    with "1.prems" have "\<forall>j<Suc k. j * j < n"
      by (auto simp add: less_Suc_eq)
    with False "1.IH" show ?thesis
      by (simp add: ceil_sqrt_from.simps [of n k])
  qed
qed

text \<open>\<^const>\<open>ceil_sqrt\<close> is \<^verbatim>\<open>Math.ceil(Math.sqrt(n))\<close> over the reals.\<close>

lemma ceil_sqrt_ceiling: "int (ceil_sqrt n) = \<lceil>sqrt (real n)\<rceil>"
proof -
  define r where "r = ceil_sqrt n"
  have up: "n \<le> r * r" and low: "\<forall>j<r. j * j < n"
    using ceil_sqrt_from_least [of 0 n] by (simp_all add: r_def ceil_sqrt_def)
  from up have "real n \<le> (real r)\<^sup>2"
    by (metis of_nat_le_iff of_nat_mult power2_eq_square)
  then have le: "sqrt (real n) \<le> real r"
    by (simp add: real_le_lsqrt)
  have gt: "real r - 1 < sqrt (real n)"
  proof (cases r)
    case 0
    have "0 \<le> sqrt (real n)" by simp
    with 0 show ?thesis by linarith
  next
    case (Suc q)
    with low have "q * q < n" by simp
    then have "(real q)\<^sup>2 < real n"
      by (metis of_nat_less_iff of_nat_mult power2_eq_square)
    then have "real q < sqrt (real n)"
      by (rule real_less_rsqrt)
    with Suc show ?thesis by simp
  qed
  from gt le have "\<lceil>sqrt (real n)\<rceil> = int r"
    by (intro ceiling_unique) simp_all
  then show ?thesis by (simp add: r_def)
qed

text \<open>So the room unit is the quotient the source writes:
  \<^verbatim>\<open>extent / Math.max(2, Math.ceil(Math.sqrt(formData.bedrooms + 2)))\<close>.\<close>

lemma roomUnit_sqrt:
  "roomUnit fd extent = extent / real_of_int (max 2 \<lceil>sqrt (real (bedrooms fd + 2))\<rceil>)"
proof -
  have "int (max 2 (ceil_sqrt (bedrooms fd + 2))) = max 2 \<lceil>sqrt (real (bedrooms fd + 2))\<rceil>"
    by (simp only: ceil_sqrt_ceiling [symmetric])
  then have "real (max 2 (ceil_sqrt (bedrooms fd + 2)))
      = real_of_int (max 2 \<lceil>sqrt (real (bedrooms fd + 2))\<rceil>)"
    by (metis of_int_of_nat_eq)
  then show ?thesis
    by (simp only: roomUnit_def)
qed

subsection \<open>The loops\<close>

lemma fold_addKitchen:
  "fold (addKitchen rw rl) [0..<n] (rs, cx, cz) =
     (rs @ map (\<lambda>i. kitchenRoom rw rl i (cx + real i * rw) cz) [0..<n], cx + real n * rw, cz)"
  by (induction n) (simp_all add: addKitchen_def algebra_simps)

text \<open>After the living room and the kitchens the cursor stands at one and a half units
  plus one unit for each kitchen, in the first row.\<close>

lemma firstRow_eq:
  "firstRow fd dims =
     (livingRoom (roomUnit fd (width dims)) (roomUnit fd (length' dims)) 0 0 #
        map (\<lambda>i. kitchenRoom (roomUnit fd (width dims)) (roomUnit fd (length' dims)) i
                   (roomUnit fd (width dims) * 1.5 + real i * roomUnit fd (width dims)) 0)
          [0..<kitchens fd],
      roomUnit fd (width dims) * 1.5 + real (kitchens fd) * roomUnit fd (width dims), 0)"
  by (simp add: firstRow_def Let_def fold_addKitchen)

lemma fold_addBedroom_rid:
  "map rid (fst (fold (addBedroom dims rw rl) [0..<n] st)) =
     map rid (fst st) @ map (\<lambda>i. ''bedroom-'' @ decimal (i + 1)) [0..<n]"
  by (induction n)
     (simp_all add: addBedroom_def bedroomRoom_def split_beta Let_def)

lemma fold_addBedroom_rtype:
  "map rtype (fst (fold (addBedroom dims rw rl) [0..<n] st)) =
     map rtype (fst st) @ replicate n Bedroom"
  by (induction n)
     (simp_all add: addBedroom_def bedroomRoom_def split_beta Let_def replicate_append_same)

lemma fold_addBathroom_rid:
  "map rid (fst (fold (addBathroom dims rw rl) [0..<n] st)) =
     map rid (fst st) @ map (\<lambda>i. ''bathroom-'' @ decimal (i + 1)) [0..<n]"
  by (induction n)
     (simp_all add: addBathroom_def bathroomRoom_def split_beta Let_def)

lemma fold_addBathroom_rtype:
  "map rtype (fst (fold (addBathroom dims rw rl) [0..<n] st)) =
     map rtype (fst st) @ replicate n Bathroom"
  by (induction n)
     (simp_all add: addBathroom_def bathroomRoom_def split_beta Let_def replicate_append_same)

text \<open>The loops only push: what was in the array stays in front.\<close>

lemma fold_addBedroom_append:
  "\<exists>new. fst (fold (addBedroom dims rw rl) [0..<n] st) = fst st @ new \<and> length new = n"
  by (induction n) (auto simp add: addBedroom_def split_beta Let_def)

lemma fold_addBathroom_append:
  "\<exists>new. fst (fold (addBathroom dims rw rl) [0..<n] st) = fst st @ new \<and> length new = n"
  by (induction n) (auto simp add: addBathroom_def split_beta Let_def)

subsection \<open>Categories and ids of the generated rooms\<close>

text \<open>The test of \<^verbatim>\<open>generateRooms\<close> before the dining room is \<^const>\<open>diningFits\<close>.\<close>

lemma generateRooms_rtype:
  "map rtype (generateRooms fd dims) =
     Living # replicate (kitchens fd) Kitchen @ (if diningFits fd dims then [Dining] else [])
       @ replicate (bedrooms fd) Bedroom @ replicate (bathrooms fd) Bathroom @ [Hallway]"
  by (simp add: generateRooms_def Let_def firstRow_eq addDining_def split_beta
      fold_addBathroom_rtype fold_addBedroom_rtype diningFits_def
      livingRoom_def kitchenRoom_def diningRoom_def hallwayRoom_def comp_def map_replicate_const)

lemma generateRooms_rid:
  "map rid (generateRooms fd dims) =
     ''living-1'' # map (\<lambda>i. ''kitchen-'' @ decimal (i + 1)) [0..<kitchens fd]
       @ (if diningFits fd dims then [''dining-1''] else [])
       @ map (\<lambda>i. ''bedroom-'' @ decimal (i + 1)) [0..<bedrooms fd]
       @ map (\<lambda>i. ''bathroom-'' @ decimal (i + 1)) [0..<bathrooms fd] @ [''hallway-1'']"
  by (simp add: generateRooms_def Let_def firstRow_eq addDining_def split_beta
      fold_addBathroom_rid fold_addBedroom_rid diningFits_def
      livingRoom_def kitchenRoom_def diningRoom_def hallwayRoom_def comp_def)

lemma generateRooms_prefix:
  "\<exists>rest. generateRooms fd dims =
     fst (addDining dims (roomUnit fd (width dims)) (roomUnit fd (length' dims))
            (firstRow fd dims)) @ rest"
proof -
  let ?rw = "roomUnit fd (width dims)" and ?rl = "roomUnit fd (length' dims)"
  obtain rooms1 x1 z1 where d: "addDining dims ?rw ?rl (firstRow fd dims) = (rooms1, x1, z1)"
    by (cases "addDining dims ?rw ?rl (firstRow fd dims)") auto
  obtain beds where b: "fst (fold (addBedroom dims ?rw ?rl) [0..<bedrooms fd]
      (rooms1, 0, z1 + ?rl * 1.5)) = rooms1 @ beds"
    using fold_addBedroom_append [of dims ?rw ?rl "bedrooms fd" "(rooms1, 0, z1 + ?rl * 1.5)"]
    by auto
  obtain baths where
    "fst (fold (addBathroom dims ?rw ?rl) [0..<bathrooms fd]
       (fold (addBedroom dims ?rw ?rl) [0..<bedrooms fd] (rooms1, 0, z1 + ?rl * 1.5)))
     = rooms1 @ beds @ baths"
    using fold_addBathroom_append [of dims ?rw ?rl "bathrooms fd"
        "fold (addBedroom dims ?rw ?rl) [0..<bedrooms fd] (rooms1, 0, z1 + ?rl * 1.5)"] b
    by auto
  with d show ?thesis
    by (simp add: generateRooms_def Let_def split_beta)
qed

lemma generateRooms_dining:
  assumes "diningFits fd dims"
  shows "generateRooms fd dims ! Suc (kitchens fd) =
     diningRoom (roomUnit fd (width dims)) (roomUnit fd (length' dims))
       (roomUnit fd (width dims) * 1.5 + real (kitchens fd) * roomUnit fd (width dims)) 0"
proof -
  obtain rest where "generateRooms fd dims =
     fst (addDining dims (roomUnit fd (width dims)) (roomUnit fd (length' dims))
            (firstRow fd dims)) @ rest"
    using generateRooms_prefix by blast
  with assms show ?thesis
    by (simp add: firstRow_eq addDining_def diningFits_def nth_append)
qed

subsection \<open>Decimal numerals are injective\<close>

lemma digit_char_inj:
  assumes "a < 10" and "b < 10" and "digit_char a = digit_char b"
  shows "a = b"
proof -
  from assms(3) have "(of_char (digit_char a) :: nat) = of_char (digit_char b)"
    by simp
  with assms(1,2) show ?thesis
    by (simp add: digit_char_def)
qed

lemma decimal_not_Nil: "decimal n \<noteq> []"
  by (subst decimal.simps) simp

lemma last_decimal: "last (decimal n) = digit_char (n mod 10)"
  by (subst decimal.simps) simp

lemma butlast_decimal: "butlast (decimal n) = (if n < 10 then [] else decimal (n div 10))"
  by (subst decimal.simps) (simp add: butlast_append)

lemma decimal_inj: "decimal m = decimal n \<Longrightarrow> m = n"
proof (induction m arbitrary: n rule: less_induct)
  case (less m)
  from less.prems have "last (decimal m) = last (decimal n)"
    by simp
  then have "digit_char (m mod 10) = digit_char (n mod 10)"
    by (simp only: last_decimal)
  then have md: "m mod 10 = n mod 10"
    by (rule digit_char_inj [rotated 2]) simp_all
  from less.prems have bl: "butlast (decimal m) = butlast (decimal n)"
    by simp
  show ?case
  proof (cases "m < 10")
    case True
    with bl have "n < 10"
      using decimal_not_Nil [of "n div 10"] by (simp add: butlast_decimal split: if_splits)
    with True md show ?thesis by simp
  next
    case False
    with bl have n: "\<not> n < 10" and "decimal (m div 10) = decimal (n div 10)"
      using decimal_not_Nil [of "m div 10"] by (simp_all add: butlast_decimal split: if_splits)
    with False less.IH [of "m div 10" "n div 10"] have "m div 10 = n div 10"
      by simp
    with md show ?thesis
      by (metis div_mult_mod_eq)
  qed
qed

lemma generateRooms_distinct: "distinct (map rid (generateRooms fd dims))"
  by (auto simp add: generateRooms_rid distinct_map inj_on_def dest: decimal_inj)

lemma addFurniture_rid: "map rid (addFurniture rs loc) = map rid rs"
  by (simp add: addFurniture_def comp_def)

lemma generateHouse_Inr:
  "generateHouse fd =
     Inr \<lparr>width = width (calculateHouseDimensions (parsePlotSize (plotSize fd)) fd),
          length' = length' (calculateHouseDimensions (parsePlotSize (plotSize fd)) fd),
          height = height (calculateHouseDimensions (parsePlotSize (plotSize fd)) fd),
          floors = (if houseType fd = Single then 1 else 2),
          rooms = addFurniture
            (generateRooms fd (calculateHouseDimensions (parsePlotSize (plotSize fd)) fd))
            (locationType fd),
          style = (if locationType fd = City then Modern else Traditional)\<rparr>"
  by (simp add: generateHouse_def generateHouseBody_def Let_def)

text \<open>
  Claim C3: for every form input (the room counts are natural numbers, zero bedrooms
  included) and all dimensions, \<^verbatim>\<open>generateRooms\<close> returns a list made of one living room,
  as many kitchens as asked for, no or one dining room, as many bedrooms and then as
  many bathrooms as asked for, and one hallway, in this order. The function is total (no
  step of it raises), and its result, hence the number of rooms, is a function of the input.
\<close>

theorem generateRooms_room_list:
  "\<exists>n. n \<le> 1 \<and>
     map rtype (generateRooms formData dims) =
       Living # replicate (kitchens formData) Kitchen @ replicate n Dining
         @ replicate (bedrooms formData) Bedroom @ replicate (bathrooms formData) Bathroom
         @ [Hallway] \<and>
     length (generateRooms formData dims) =
       1 + kitchens formData + n + bedrooms formData + bathrooms formData + 1"
proof -
  define n :: nat where "n = (if diningFits formData dims then 1 else 0)"
  have t: "map rtype (generateRooms formData dims) =
       Living # replicate (kitchens formData) Kitchen @ replicate n Dining
         @ replicate (bedrooms formData) Bedroom @ replicate (bathrooms formData) Bathroom
         @ [Hallway]"
    by (simp add: generateRooms_rtype n_def)
  from arg_cong [OF t, of length]
  have l: "length (generateRooms formData dims) =
      1 + kitchens formData + n + bedrooms formData + bathrooms formData + 1"
    by simp
  have "n \<le> 1"
    by (simp add: n_def)
  with t l show ?thesis
    by (intro exI [of _ n] conjI)
qed

text \<open>
  Claim C4: the ids of the rooms of one generation are pairwise distinct: in the list
  \<^verbatim>\<open>generateRooms\<close> returns, in that list after \<^verbatim>\<open>addFurniture\<close>, and so in the layout
  \<^verbatim>\<open>generateHouse\<close> returns.
\<close>

theorem room_ids_distinct:
  "distinct (map rid (generateRooms formData dims)) \<and>
   distinct (map rid (addFurniture (generateRooms formData dims) location)) \<and>
   (\<exists>layout. generateHouse formData = Inr layout \<and> distinct (map rid (rooms layout)))"
  by (simp add: generateRooms_distinct addFurniture_rid generateHouse_Inr)

text \<open>
  Claim C7: the generated list has a dining room exactly when the row cursor after the
  living room (one and a half units wide) and the kitchens (one unit each) leaves room
  for one more unit within the house width (\<^const>\<open>diningFits\<close>; the unit is
  \<^const>\<open>roomUnit\<close> of the width). Then the living room and the kitchens are followed at once
  by the dining room, which stands at the cursor in the first row.
\<close>

theorem dining_room_iff_fits:
  "(Dining \<in> set (map rtype (generateRooms formData dims)) \<longleftrightarrow> diningFits formData dims) \<and>
   (diningFits formData dims \<longrightarrow>
      map rtype (take (Suc (kitchens formData)) (generateRooms formData dims)) =
        Living # replicate (kitchens formData) Kitchen \<and>
      rtype (generateRooms formData dims ! Suc (kitchens formData)) = Dining \<and>
      position (generateRooms formData dims ! Suc (kitchens formData)) =
        \<lparr>pos_x = roomUnit formData (width dims) * 1.5
                  + real (kitchens formData) * roomUnit formData (width dims),
         pos_y = 0, pos_z = 0\<rparr>)"
proof (intro conjI impI)
  show "Dining \<in> set (map rtype (generateRooms formData dims)) \<longleftrightarrow> diningFits formData dims"
    by (auto simp add: generateRooms_rtype)
next
  assume "diningFits formData dims"
  show "map rtype (take (Suc (kitchens formData)) (generateRooms formData dims)) =
        Living # replicate (kitchens formData) Kitchen"
    by (simp add: generateRooms_rtype flip: take_map)
next
  assume "diningFits formData dims"
  then show "rtype (generateRooms formData dims ! Suc (kitchens formData)) = Dining"
    by (simp add: generateRooms_dining diningRoom_def)
next
  assume "diningFits formData dims"
  then show "position (generateRooms formData dims ! Suc (kitchens formData)) =
        \<lparr>pos_x = roomUnit formData (width dims) * 1.5
                  + real (kitchens formData) * roomUnit formData (width dims),
         pos_y = 0, pos_z = 0\<rparr>"
    by (simp add: generateRooms_dining diningRoom_def)
qed

theorem dining_room_iff_fits_witness:
  "diningFits sevenBedroomForm scenarioDimensions \<and>
   map rtype (take (Suc (kitchens sevenBedroomForm))
     (generateRooms sevenBedroomForm scenarioDimensions)) = [Living] \<and>
   rtype (generateRooms sevenBedroomForm scenarioDimensions ! Suc (kitchens sevenBedroomForm))
     = Dining \<and>
   position (generateRooms sevenBedroomForm scenarioDimensions ! Suc (kitchens sevenBedroomForm))
     = \<lparr>pos_x = 8, pos_y = 0, pos_z = 0\<rparr>"
proof -
  have h: "diningFits sevenBedroomForm scenarioDimensions"
    by code_simp
  have k: "kitchens sevenBedroomForm = 0"
    by (simp add: sevenBedroomForm_def)
  have v: "roomUnit sevenBedroomForm (width scenarioDimensions) * 1.5
      + real (kitchens sevenBedroomForm) * roomUnit sevenBedroomForm (width scenarioDimensions)
      = 8"
    by code_simp
  from dining_room_iff_fits [of sevenBedroomForm scenarioDimensions] h v show ?thesis
    by (simp add: k)
qed

section \<open>The camera tour\<close>

text \<open>The \<^verbatim>\<open>forEach\<close> loop appends the view of each room that is not a hallway.\<close>

lemma fold_visitRoom:
  "fold visitRoom rs acc = acc @ map roomView (filter (\<lambda>room. rtype room \<noteq> Hallway) rs)"
  by (induction rs arbitrary: acc) (simp_all add: visitRoom_def)

lemma generateTourWaypoints_eq:
  "generateTourWaypoints rs dims =
     exteriorView dims # map roomView (filter (\<lambda>room. rtype room \<noteq> Hallway) rs)
       @ [finalView dims]"
  by (simp add: generateTourWaypoints_def fold_visitRoom)

text \<open>
  Claim C5: for every room list and all house dimensions \<^verbatim>\<open>generateTourWaypoints\<close> returns
  two waypoints more than there are rooms that are not hallways; the first is named
  \<^verbatim>\<open>Exterior View\<close>, the last \<^verbatim>\<open>Final View\<close>, and the waypoints between them are the views of
  the rooms that are not hallways, in the order of the room list (so they carry the
  names of these rooms in that order).
\<close>

theorem tour_waypoints_shape:
  "length (generateTourWaypoints rs dims) =
     2 + length (filter (\<lambda>room. rtype room \<noteq> Hallway) rs) \<and>
   roomName (hd (generateTourWaypoints rs dims)) = ''Exterior View'' \<and>
   roomName (last (generateTourWaypoints rs dims)) = ''Final View'' \<and>
   butlast (tl (generateTourWaypoints rs dims)) =
     map roomView (filter (\<lambda>room. rtype room \<noteq> Hallway) rs) \<and>
   map roomName (butlast (tl (generateTourWaypoints rs dims))) =
     map name (filter (\<lambda>room. rtype room \<noteq> Hallway) rs)"
  by (simp add: generateTourWaypoints_eq exteriorView_def finalView_def roomView_def comp_def)

text \<open>
  Claim C6: the waypoint of a room that is not a hallway stands at the centre of the
  room (its position plus half its width and half its length, at half its height), looks
  at that very point and lasts 2 seconds; the opening exterior waypoint lasts 3 seconds
  and the closing one 2 seconds.
\<close>

theorem tour_waypoint_geometry:
  "map wposition (butlast (tl (generateTourWaypoints rs dims))) =
     map (\<lambda>room. (pos_x (position room) + width (dimensions room) / 2,
                   height (dimensions room) / 2,
                   pos_z (position room) + length' (dimensions room) / 2))
       (filter (\<lambda>room. rtype room \<noteq> Hallway) rs) \<and>
   map lookAt (butlast (tl (generateTourWaypoints rs dims))) =
     map wposition (butlast (tl (generateTourWaypoints rs dims))) \<and>
   map duration (butlast (tl (generateTourWaypoints rs dims))) =
     replicate (length (filter (\<lambda>room. rtype room \<noteq> Hallway) rs)) 2 \<and>
   duration (hd (generateTourWaypoints rs dims)) = 3 \<and>
   duration (last (generateTourWaypoints rs dims)) = 2"
  by (simp add: generateTourWaypoints_eq exteriorView_def finalView_def roomView_def comp_def
      map_replicate_const)


section \<open>Furnishing\<close>

lemma addFurniture_frame:
  "length (addFurniture rs loc) = length rs \<and>
   map rid (addFurniture rs loc) = map rid rs \<and>
   map name (addFurniture rs loc) = map name rs \<and>
   map rtype (addFurniture rs loc) = map rtype rs \<and>
   map position (addFurniture rs loc) = map position rs \<and>
   map dimensions (addFurniture rs loc) = map dimensions rs"
  by (simp add: addFurniture_def comp_def)

lemma addFurniture_unmatched:
  assumes "room \<in> set (addFurniture rs loc)"
    and "rtype room \<notin> {Living, Bedroom, Kitchen, Bathroom, Dining}"
  shows "furniture room = []"
proof -
  from assms(1) obtain r where "room = r\<lparr>furniture := roomFurniture r\<rparr>"
    by (auto simp add: addFurniture_def)
  with assms(2) show ?thesis
    by (cases "rtype r") (simp_all add: roomFurniture_def)
qed

text \<open>
  Over the store: each step reads an object that was there at the start and allocates
  one object behind all others.
\<close>

lemma fold_addFurnitureStep:
  "\<forall>r \<in> set refs. r < length objs \<Longrightarrow>
   fold addFurnitureStep refs (result, objs @ ext) =
     (result @ map (\<lambda>i. length objs + length ext + i) [0..<length refs],
      objs @ ext @ map (\<lambda>r. (objs ! r)\<lparr>furniture := roomFurniture (objs ! r)\<rparr>) refs)"
proof (induction refs arbitrary: result ext)
  case Nil
  then show ?case by simp
next
  case (Cons r refs)
  from Cons.prems have r: "r < length objs" and rest: "\<forall>r \<in> set refs. r < length objs"
    by simp_all
  let ?new = "(objs ! r)\<lparr>furniture := roomFurniture (objs ! r)\<rparr>"
  have "fold addFurnitureStep (r # refs) (result, objs @ ext) =
      fold addFurnitureStep refs (result @ [length objs + length ext], objs @ (ext @ [?new]))"
    using r by (simp add: addFurnitureStep_def Let_def nth_append)
  also have "\<dots> =
     ((result @ [length objs + length ext])
        @ map (\<lambda>i. length objs + length (ext @ [?new]) + i) [0..<length refs],
      objs @ (ext @ [?new])
        @ map (\<lambda>r. (objs ! r)\<lparr>furniture := roomFurniture (objs ! r)\<rparr>) refs)"
    by (rule Cons.IH [OF rest])
  also have "\<dots> =
     (result @ map (\<lambda>i. length objs + length ext + i) [0..<length (r # refs)],
      objs @ ext @ map (\<lambda>r. (objs ! r)\<lparr>furniture := roomFurniture (objs ! r)\<rparr>) (r # refs))"
    by (simp add: upt_conv_Cons map_Suc_upt [symmetric] del: upt_Suc)
  finally show ?case .
qed

lemma addFurnitureStore_eq:
  assumes "\<forall>r \<in> set refs. r < length objs"
  shows "addFurnitureStore objs refs loc =
     (map (\<lambda>i. length objs + i) [0..<length refs],
      objs @ addFurniture (map (\<lambda>r. objs ! r) refs) loc)"
  using fold_addFurnitureStep [OF assms, of "[]" "[]"]
  by (simp add: addFurnitureStore_def addFurniture_def comp_def)

text \<open>
  Claim C8: for every room list and location style, \<^verbatim>\<open>addFurniture\<close> returns as many rooms
  as it was given, each with the id, name, category, position and dimensions of the
  input room at the same place; a room that is a hallway, or of any category without a
  case in the switch, gets no furniture. The input rooms are not written: over a store
  of room objects, with the input an array of valid references, every object of the
  store is the same afterwards (the store only grows), and the references returned point
  to the new objects, whose values are those the function over values computes.
\<close>

theorem addFurniture_frame_and_store:
  "length (addFurniture rs location) = length rs \<and>
   map rid (addFurniture rs location) = map rid rs \<and>
   map name (addFurniture rs location) = map name rs \<and>
   map rtype (addFurniture rs location) = map rtype rs \<and>
   map position (addFurniture rs location) = map position rs \<and>
   map dimensions (addFurniture rs location) = map dimensions rs \<and>
   (\<forall>room \<in> set (addFurniture rs location).
      rtype room = Hallway \<or> rtype room \<notin> {Living, Bedroom, Kitchen, Bathroom, Dining}
        \<longrightarrow> furniture room = []) \<and>
   ((\<forall>r \<in> set roomRefs. r < length objs) \<longrightarrow>
      take (length objs) (snd (addFurnitureStore objs roomRefs location)) = objs \<and>
      map (\<lambda>r. snd (addFurnitureStore objs roomRefs location) ! r)
          (fst (addFurnitureStore objs roomRefs location))
        = addFurniture (map (\<lambda>r. objs ! r) roomRefs) location)"
proof (intro conjI ballI impI)
  fix room
  assume "room \<in> set (addFurniture rs location)"
    and "rtype room = Hallway \<or> rtype room \<notin> {Living, Bedroom, Kitchen, Bathroom, Dining}"
  then show "furniture room = []"
    using addFurniture_unmatched [of room rs location] by auto
next
  assume v: "\<forall>r \<in> set roomRefs. r < length objs"
  show "take (length objs) (snd (addFurnitureStore objs roomRefs location)) = objs"
    by (simp add: addFurnitureStore_eq [OF v])
  let ?new = "addFurniture (map (\<lambda>r. objs ! r) roomRefs) location"
  have len: "length ?new = length roomRefs"
    by (simp add: addFurniture_def)
  have "map (\<lambda>r. (objs @ ?new) ! r) (map (\<lambda>i. length objs + i) [0..<length roomRefs])
      = map (\<lambda>i. ?new ! i) [0..<length ?new]"
    by (simp only: len map_map comp_def nth_append_length_plus)
  also have "\<dots> = ?new"
    by (rule map_nth)
  finally show "map (\<lambda>r. snd (addFurnitureStore objs roomRefs location) ! r)
          (fst (addFurnitureStore objs roomRefs location))
        = addFurniture (map (\<lambda>r. objs ! r) roomRefs) location"
    by (simp only: addFurnitureStore_eq [OF v] fst_conv snd_conv)
qed (simp_all add: addFurniture_frame)

theorem addFurniture_frame_and_store_witness:
  "length (generateRooms scenarioForm scenarioDimensions) = 6 \<and>
   take 6 (snd (addFurnitureStore (generateRooms scenarioForm scenarioDimensions)
                  [0, 1, 2, 3, 4, 5] City))
     = generateRooms scenarioForm scenarioDimensions \<and>
   map (\<lambda>r. snd (addFurnitureStore (generateRooms scenarioForm scenarioDimensions)
                    [0, 1, 2, 3, 4, 5] City) ! r)
       (fst (addFurnitureStore (generateRooms scenarioForm scenarioDimensions)
               [0, 1, 2, 3, 4, 5] City))
     = addFurniture (generateRooms scenarioForm scenarioDimensions) City \<and>
   map (\<lambda>room. length (furniture room))
       (addFurniture (generateRooms scenarioForm scenarioDimensions) City)
     = [5, 5, 4, 4, 4, 0] \<and>
   rtype (last (addFurniture (generateRooms scenarioForm scenarioDimensions) City)) = Hallway \<and>
   furniture (last (addFurniture (generateRooms scenarioForm scenarioDimensions) City)) = []"
proof -
  let ?objs = "generateRooms scenarioForm scenarioDimensions"
  let ?refs = "[0, 1, 2, 3, 4, 5] :: nat list"
  have n: "length ?objs = 6"
    by code_simp
  have v: "\<forall>r \<in> set ?refs. r < length ?objs"
    by (simp add: n)
  have all: "map (\<lambda>r. ?objs ! r) ?refs = ?objs"
    by code_simp
  have c: "map (\<lambda>room. length (furniture room)) (addFurniture ?objs City) = [5, 5, 4, 4, 4, 0]"
    by code_simp
  have t: "rtype (last (addFurniture ?objs City)) = Hallway"
    by code_simp
  have "addFurniture ?objs City \<noteq> []"
    using n by (auto simp add: addFurniture_def)
  then have m: "last (addFurniture ?objs City) \<in> set (addFurniture ?objs City)"
    by (rule last_in_set)
  from addFurniture_frame_and_store [of ?objs City ?refs ?objs] v m t
  have "take (length ?objs) (snd (addFurnitureStore ?objs ?refs City)) = ?objs"
    and "map (\<lambda>r. snd (addFurnitureStore ?objs ?refs City) ! r)
           (fst (addFurnitureStore ?objs ?refs City))
         = addFurniture (map (\<lambda>r. ?objs ! r) ?refs) City"
    and "furniture (last (addFurniture ?objs City)) = []"
    by blast+
  with n all c t show ?thesis
    by simp
qed

text \<open>
  Claim C10: the result of \<^verbatim>\<open>addFurniture\<close> does not depend on its location style: for
  every room list the furnished rooms for \<^verbatim>\<open>city\<close> and for \<^verbatim>\<open>village\<close> are equal. Through
  \<^verbatim>\<open>generateHouse\<close>, two inputs that differ in the location style alone get the same rooms,
  and differ in the style of the layout.
\<close>

theorem addFurniture_ignores_location:
  "addFurniture rs City = addFurniture rs Village \<and>
   (\<exists>modern traditional.
      generateHouse (formData\<lparr>locationType := City\<rparr>) = Inr modern \<and>
      generateHouse (formData\<lparr>locationType := Village\<rparr>) = Inr traditional \<and>
      rooms modern = rooms traditional \<and>
      style modern = Modern \<and> style traditional = Traditional)"
  by (simp add: addFurniture_def generateHouse_Inr calculateHouseDimensions_def
      generateRooms_def roomUnit_def firstRow_def)

end
